theory Spec2Isabelle
  imports Main
begin

section \<open>Worker routing (\<open>self.MonacoEnvironment.getWorker\<close>)\<close>

text \<open>
  The six worker modules imported at the top of \<open>Monaco.vue\<close>. Each \<open>new xWorker()\<close>
  spawns a fresh background context; what the router decides is the kind.
\<close>

datatype worker =
    jsonWorker
  | cssWorker
  | htmlWorker
  | tsWorker
  | yamlWorker
  | editorWorker

text \<open>
  \<open>getWorker(_: any, label: string)\<close>: the first argument is ignored, the label is compared
  with \<open>===\<close> against string literals in a chain of early returns.
\<close>

definition getWorker :: "'a \<Rightarrow> string \<Rightarrow> worker" where
  "getWorker u label =
     (if label = ''json'' then jsonWorker
      else if label = ''css'' \<or> label = ''scss'' \<or> label = ''less'' then cssWorker
      else if label = ''html'' \<or> label = ''handlebars'' \<or> label = ''razor'' then htmlWorker
      else if label = ''typescript'' \<or> label = ''javascript'' then tsWorker
      else if label = ''yaml'' then yamlWorker
      else editorWorker)"

section \<open>Match ranges and decorations (\<open>transformMatch\<close>)\<close>

text \<open>
  A match is a \<open>number[]\<close>. The model keeps integer-valued numbers as \<open>int\<close>; JavaScript
  adds 1 to an integer exactly as long as the sum stays within \<open>2^53\<close>, which is the range
  \<open>valid_match\<close> below admits. Destructuring \<open>const [sr, sc, er, ec] = match\<close> yields
  \<open>undefined\<close> for a missing element, and \<open>undefined + 1\<close> is \<open>NaN\<close>.
\<close>

datatype number = Num int | NaN

record monaco_Range =
  startLineNumber :: number
  startColumn :: number
  endLineNumber :: number
  endColumn :: number

record decoration_options =
  inlineClassName :: string

record decoration =
  dec_range :: monaco_Range
  dec_options :: decoration_options

definition element :: "int list \<Rightarrow> nat \<Rightarrow> int option" where
  "element match i = (if i < length match then Some (match ! i) else None)"

definition add_one :: "int option \<Rightarrow> number" where
  "add_one v = (case v of None \<Rightarrow> NaN | Some x \<Rightarrow> Num (x + 1))"

text \<open>
  JavaScript's greater-than and \<open>===\<close> on numbers: every comparison with \<open>NaN\<close> is
  false.
\<close>

fun number_gt :: "number \<Rightarrow> number \<Rightarrow> bool" where
  "number_gt (Num a) (Num b) = (b < a)"
| "number_gt x y = False"

fun number_eq :: "number \<Rightarrow> number \<Rightarrow> bool" where
  "number_eq (Num a) (Num b) = (a = b)"
| "number_eq x y = False"

text \<open>
  Modelled from the spec: \<open>monaco.Range\<close> belongs to the editor widget library, an external
  collaborator (section 6), not to the repository. Its constructor keeps a range
  normalised: when the start position lies after the end position (a later line, or the
  same line and a later column), it stores the two positions exchanged; otherwise it
  stores the four arguments as they come.
\<close>

definition new_Range :: "number \<Rightarrow> number \<Rightarrow> number \<Rightarrow> number \<Rightarrow> monaco_Range" where
  "new_Range sl sc el ec =
     (if number_gt sl el \<or> (number_eq sl el \<and> number_gt sc ec)
      then \<lparr>startLineNumber = el, startColumn = ec, endLineNumber = sl, endColumn = sc\<rparr>
      else \<lparr>startLineNumber = sl, startColumn = sc, endLineNumber = el, endColumn = ec\<rparr>)"

text \<open>
  \<open>transformMatch\<close>: \<open>new monaco.Range(sr + 1, sc + 1, er + 1, ec + 1)\<close> with the fixed
  \<open>inlineClassName\<close>.
\<close>

definition transformMatch :: "int list \<Rightarrow> decoration" where
  "transformMatch match =
     (let sr = element match 0; sc = element match 1;
          er = element match 2; ec = element match 3
      in \<lparr>dec_range = new_Range (add_one sr) (add_one sc) (add_one er) (add_one ec),
          dec_options = \<lparr>inlineClassName = ''monaco-highlight-span''\<rparr>\<rparr>)"

text \<open>
  A valid \<open>MatchRange\<close> \<open>[startRow, startCol, endRow, endCol]\<close>: exactly four 0-indexed
  integers, each small enough that adding 1 is exact in JavaScript
  (\<open>Number.MAX_SAFE_INTEGER = 2^53 - 1\<close>), the start position not after the end position,
  as for the span of a match in a text.
\<close>

definition valid_match :: "int list \<Rightarrow> bool" where
  "valid_match m =
     (length m = 4 \<and> list_all (\<lambda>x. 0 \<le> x \<and> x \<le> 9007199254740991) m
      \<and> (m ! 0 < m ! 2 \<or> (m ! 0 = m ! 2 \<and> m ! 1 \<le> m ! 3)))"

section \<open>Props (\<open>defineProps\<close>)\<close>

text \<open>
  \<open>attrs\<close> is what the parent passes (\<open>None\<close>: the option is omitted); \<open>defineProps\<close>
  applies the declared defaults. \<open>modelValue\<close> and \<open>highlights\<close> declare none and stay
  \<open>undefined\<close> when omitted.
\<close>

record attrs =
  attr_language :: "string option"
  attr_modelValue :: "string option"
  attr_readonly :: "bool option"
  attr_highlights :: "int list list option"

record props =
  props_language :: string
  props_modelValue :: "string option"
  props_readonly :: bool
  props_highlights :: "int list list option"

definition defineProps :: "attrs \<Rightarrow> props" where
  "defineProps a =
     \<lparr>props_language = (case attr_language a of None \<Rightarrow> ''javascript'' | Some l \<Rightarrow> l),
      props_modelValue = attr_modelValue a,
      props_readonly = (case attr_readonly a of None \<Rightarrow> False | Some b \<Rightarrow> b),
      props_highlights = attr_highlights a\<rparr>"

section \<open>The component and the editor widget's objects\<close>

text \<open>
  Editors, document models and decoration collections are objects of the widget library;
  the component holds references to them. The state keeps each kind in a list, a
  reference being an index, so that a call on an object that is no longer referenced
  (the model replaced by a language switch) stays observable. \<open>model_disposed\<close> and
  \<open>ed_disposed\<close> count the \<open>dispose()\<close> calls the component made on the object.
\<close>

datatype error = TypeError

record model =
  model_value :: string
  model_language :: string
  model_disposed :: nat

record editor_options =
  opt_value :: "string option"
  opt_language :: string
  readOnly :: bool
  automaticLayout :: bool
  scrollBeyondLastLine :: bool
  wordWrap :: string
  lineNumbersMinChars :: nat
  minimap_enabled :: bool
  inlineSuggest_enabled :: bool

text \<open>
  The two closures registered in \<open>onMounted\<close>. The first captures \<open>editorInstance\<close>.
\<close>

datatype content_listener = emit_update_modelValue nat

datatype cursor_listener = emit_changeCursor

record cursor_event =
  ev_lineNumber :: int
  ev_column :: int

datatype emitted_event = update_modelValue string | changeCursor cursor_event

record editor_instance =
  ed_container :: nat
  ed_options :: editor_options
  ed_model :: "nat option"
  ed_content_listeners :: "content_listener list"
  ed_cursor_listeners :: "cursor_listener list"
  ed_disposed :: nat

record component =
  props :: props
  containerRef :: "nat option"
  editor :: "nat option"
  highlights :: "nat option"
  editors :: "editor_instance list"
  models :: "model list"
  collections :: "decoration list list"
  emitted :: "emitted_event list"

text \<open>
  \<open>new_component\<close>: the state in which the script block leaves a fresh component
  instance, before the template is rendered.
\<close>

definition new_component :: "attrs \<Rightarrow> component" where
  "new_component a =
     \<lparr>props = defineProps a, containerRef = None, editor = None, highlights = None,
      editors = [], models = [], collections = [], emitted = []\<rparr>"

definition emits :: "emitted_event \<Rightarrow> component \<Rightarrow> component" where
  "emits ev st = st\<lparr>emitted := emitted st @ [ev]\<rparr>"

subsection \<open>The capability surface of the editor widget library\<close>

text \<open>
  Modelled from the spec: the editor widget library is an external collaborator, not part
  of the repository; section 6 of the specification names the capabilities the component
  depends on (create an editor in a container, create a model from text and language,
  create a decoration collection from an initial list, dispose). The definitions below
  give each call the component makes its plain effect on the objects: \<open>create\<close> makes an
  editor with a model of the given text and language attached, \<open>setModel\<close> attaches,
  \<open>set\<close> replaces a collection's decorations, \<open>dispose\<close> is recorded on the object, and no
  call throws.
\<close>

definition monaco_editor_create :: "nat \<Rightarrow> editor_options \<Rightarrow> component \<Rightarrow> nat \<times> component" where
  "monaco_editor_create c opts st =
     (length (editors st),
      st\<lparr>models := models st @
             [\<lparr>model_value = (case opt_value opts of None \<Rightarrow> '''' | Some v \<Rightarrow> v),
               model_language = opt_language opts, model_disposed = 0\<rparr>],
         editors := editors st @
             [\<lparr>ed_container = c, ed_options = opts, ed_model = Some (length (models st)),
               ed_content_listeners = [], ed_cursor_listeners = [], ed_disposed = 0\<rparr>]\<rparr>)"

definition monaco_editor_createModel :: "string \<Rightarrow> string \<Rightarrow> component \<Rightarrow> nat \<times> component" where
  "monaco_editor_createModel txt lang st =
     (length (models st),
      st\<lparr>models := models st @
             [\<lparr>model_value = txt, model_language = lang, model_disposed = 0\<rparr>]\<rparr>)"

definition getModel :: "nat \<Rightarrow> component \<Rightarrow> nat option" where
  "getModel e st = (if e < length (editors st) then ed_model (editors st ! e) else None)"

definition getValue :: "nat \<Rightarrow> component \<Rightarrow> string" where
  "getValue e st =
     (case getModel e st of
        None \<Rightarrow> ''''
      | Some m \<Rightarrow> if m < length (models st) then model_value (models st ! m) else '''')"

definition setModel :: "nat \<Rightarrow> nat \<Rightarrow> component \<Rightarrow> component" where
  "setModel e m st = st\<lparr>editors := (editors st)[e := (editors st ! e)\<lparr>ed_model := Some m\<rparr>]\<rparr>"

definition model_dispose :: "nat \<Rightarrow> component \<Rightarrow> component" where
  "model_dispose m st =
     st\<lparr>models := (models st)[m := (models st ! m)\<lparr>model_disposed := Suc (model_disposed (models st ! m))\<rparr>]\<rparr>"

definition editor_dispose :: "nat \<Rightarrow> component \<Rightarrow> component" where
  "editor_dispose e st =
     st\<lparr>editors := (editors st)[e := (editors st ! e)\<lparr>ed_disposed := Suc (ed_disposed (editors st ! e))\<rparr>]\<rparr>"

definition onDidChangeModelContent :: "nat \<Rightarrow> content_listener \<Rightarrow> component \<Rightarrow> component" where
  "onDidChangeModelContent e l st =
     st\<lparr>editors := (editors st)[e := (editors st ! e)
            \<lparr>ed_content_listeners := ed_content_listeners (editors st ! e) @ [l]\<rparr>]\<rparr>"

definition onDidChangeCursorPosition :: "nat \<Rightarrow> cursor_listener \<Rightarrow> component \<Rightarrow> component" where
  "onDidChangeCursorPosition e l st =
     st\<lparr>editors := (editors st)[e := (editors st ! e)
            \<lparr>ed_cursor_listeners := ed_cursor_listeners (editors st ! e) @ [l]\<rparr>]\<rparr>"

definition createDecorationsCollection :: "nat \<Rightarrow> decoration list \<Rightarrow> component \<Rightarrow> nat \<times> component" where
  "createDecorationsCollection e ds st =
     (length (collections st), st\<lparr>collections := collections st @ [ds]\<rparr>)"

definition collection_set :: "nat \<Rightarrow> decoration list \<Rightarrow> component \<Rightarrow> component" where
  "collection_set h ds st = st\<lparr>collections := (collections st)[h := ds]\<rparr>"

subsection \<open>Lifecycle hooks and watchers of the component\<close>

text \<open>
  \<open>onMounted\<close>: returns at once when \<open>containerRef.value\<close> is null; otherwise creates the
  editor with the fixed options, stores it in \<open>editor.value\<close>, registers the two listeners
  and creates the decoration collection from
  \<open>props.highlights?.map(transformMatch) || []\<close>.
\<close>

definition onMounted :: "component \<Rightarrow> error + component" where
  "onMounted st =
     (case containerRef st of
        None \<Rightarrow> Inr st
      | Some c \<Rightarrow>
          (let (editorInstance, st1) =
                 monaco_editor_create c
                   \<lparr>opt_value = props_modelValue (props st),
                    opt_language = props_language (props st),
                    readOnly = props_readonly (props st),
                    automaticLayout = False,
                    scrollBeyondLastLine = False,
                    wordWrap = ''on'',
                    lineNumbersMinChars = 3,
                    minimap_enabled = False,
                    inlineSuggest_enabled = True\<rparr> st;
               st2 = st1\<lparr>editor := Some editorInstance\<rparr>;
               st3 = onDidChangeModelContent editorInstance
                       (emit_update_modelValue editorInstance) st2;
               st4 = onDidChangeCursorPosition editorInstance emit_changeCursor st3;
               (h, st5) = createDecorationsCollection editorInstance
                            (case props_highlights (props st4) of
                               None \<Rightarrow> []
                             | Some ms \<Rightarrow> map transformMatch ms) st4
           in Inr (st5\<lparr>highlights := Some h\<rparr>)))"

text \<open>
  The watcher of \<open>props.highlights\<close>; \<open>matched\<close> is the new value. \<open>matched!.map\<close> is
  evaluated first and throws a TypeError on \<open>undefined\<close>; \<open>highlights?.set(ranges)\<close> does
  nothing while the collection variable is null.
\<close>

definition watch_highlights :: "int list list option \<Rightarrow> component \<Rightarrow> error + component" where
  "watch_highlights matched st =
     (case matched of
        None \<Rightarrow> Inl TypeError
      | Some ms \<Rightarrow>
          (let ranges = map transformMatch ms
           in case highlights st of
                None \<Rightarrow> Inr st
              | Some h \<Rightarrow> Inr (collection_set h ranges st)))"

text \<open>\<open>props.modelValue || ''\<close>: \<open>undefined\<close> and the empty string are both falsy.\<close>

definition or_empty :: "string option \<Rightarrow> string" where
  "or_empty v = (case v of None \<Rightarrow> '''' | Some s \<Rightarrow> if s = '''' then '''' else s)"

text \<open>
  The watcher of \<open>props.language\<close>; \<open>lang\<close> is the new value. It runs four statements;
  \<open>watch_language_steps\<close> lists the state it starts in and the state after each of
  \<open>createModel\<close>, \<open>setModel\<close> and the guarded \<open>oldModel.dispose()\<close> (reading \<open>oldModel\<close>
  changes nothing). The watcher's result is the last of them.
\<close>

definition watch_language_steps :: "string \<Rightarrow> component \<Rightarrow> component list" where
  "watch_language_steps lang st =
     (let oldModel = (case editor st of None \<Rightarrow> None | Some e \<Rightarrow> getModel e st);
          (newModel, st1) =
             monaco_editor_createModel (or_empty (props_modelValue (props st))) lang st;
          st2 = (case editor st1 of None \<Rightarrow> st1 | Some e \<Rightarrow> setModel e newModel st1);
          st3 = (case oldModel of None \<Rightarrow> st2 | Some m \<Rightarrow> model_dispose m st2)
      in [st, st1, st2, st3])"

definition watch_language :: "string \<Rightarrow> component \<Rightarrow> error + component" where
  "watch_language lang st = Inr (last (watch_language_steps lang st))"

definition onBeforeUnmount :: "component \<Rightarrow> error + component" where
  "onBeforeUnmount st =
     (case editor st of
        None \<Rightarrow> Inr st
      | Some e \<Rightarrow> Inr (editor_dispose e st))"

subsection \<open>Events of the widget\<close>

text \<open>
  What the two registered closures do when the widget calls them:
  \<open>() => emits('update:modelValue', editorInstance.getValue())\<close> and
  \<open>e => emits('changeCursor', e)\<close>.
\<close>

fun call_content_listener :: "content_listener \<Rightarrow> component \<Rightarrow> component" where
  "call_content_listener (emit_update_modelValue editorInstance) st =
     emits (update_modelValue (getValue editorInstance st)) st"

fun call_cursor_listener :: "cursor_listener \<Rightarrow> cursor_event \<Rightarrow> component \<Rightarrow> component" where
  "call_cursor_listener emit_changeCursor e st = emits (changeCursor e) st"

text \<open>
  Modelled from the spec: the widget's side of section 4.5. An edit operation is any
  function on the text of the attached model (an insertion, a deletion, a replacement);
  the widget applies it and then calls every content listener once. A cursor move calls
  every cursor listener once with the event.
\<close>

datatype widget_event = content_edit "string \<Rightarrow> string" | cursor_move cursor_event

fun fire :: "nat \<Rightarrow> widget_event \<Rightarrow> component \<Rightarrow> component" where
  "fire e (content_edit f) st =
     (case getModel e st of
        None \<Rightarrow> st
      | Some m \<Rightarrow>
          fold call_content_listener (ed_content_listeners (editors st ! e))
            (st\<lparr>models := (models st)[m := (models st ! m)
                  \<lparr>model_value := f (model_value (models st ! m))\<rparr>]\<rparr>))"
| "fire e (cursor_move c) st =
     (if e < length (editors st)
      then fold (\<lambda>l. call_cursor_listener l c) (ed_cursor_listeners (editors st ! e)) st
      else st)"

text \<open>
  What section 4.5 asks for, in the specification's words: one content-changed event with
  the full text after each edit, one cursor-changed event after each move, in order.
\<close>

fun forwarded :: "string \<Rightarrow> widget_event list \<Rightarrow> emitted_event list" where
  "forwarded txt [] = []"
| "forwarded txt (content_edit f # evs) = update_modelValue (f txt) # forwarded (f txt) evs"
| "forwarded txt (cursor_move c # evs) = changeCursor c # forwarded txt evs"

subsection \<open>Observations\<close>

text \<open>
  \<open>mounted\<close>: \<open>editor.value\<close> refers to an editor that was not disposed, with the two
  closures of \<open>onMounted\<close> as its listeners and a model attached that was not disposed,
  and the \<open>highlights\<close> variable refers to a decoration collection.
\<close>

definition mounted :: "component \<Rightarrow> bool" where
  "mounted st =
     (case editor st of
        None \<Rightarrow> False
      | Some e \<Rightarrow>
          e < length (editors st) \<and> ed_disposed (editors st ! e) = 0
          \<and> ed_content_listeners (editors st ! e) = [emit_update_modelValue e]
          \<and> ed_cursor_listeners (editors st ! e) = [emit_changeCursor]
          \<and> (case ed_model (editors st ! e) of
                None \<Rightarrow> False
              | Some m \<Rightarrow> m < length (models st) \<and> model_disposed (models st ! m) = 0)
          \<and> (case highlights st of
                None \<Rightarrow> False
              | Some h \<Rightarrow> h < length (collections st)))"

definition active_decorations :: "component \<Rightarrow> decoration list option" where
  "active_decorations st =
     (case highlights st of
        None \<Rightarrow> None
      | Some h \<Rightarrow> if h < length (collections st) then Some (collections st ! h) else None)"

definition active_model :: "component \<Rightarrow> nat option" where
  "active_model st = (case editor st of None \<Rightarrow> None | Some e \<Rightarrow> getModel e st)"

definition live_editors :: "component \<Rightarrow> nat list" where
  "live_editors st = filter (\<lambda>e. ed_disposed (editors st ! e) = 0) [0..<length (editors st)]"

subsection \<open>Runs of a mounted component\<close>

text \<open>
  What happens to a component between mount and unmount: the highlights prop changes to a
  new list, the language prop changes, or the widget reports an edit or a cursor move on
  the component's editor. A run stops at the first handler that throws.
\<close>

datatype component_event =
    highlights_changed "int list list"
  | language_changed string
  | widget "widget_event"

fun handle_event :: "component_event \<Rightarrow> component \<Rightarrow> error + component" where
  "handle_event (highlights_changed R) st = watch_highlights (Some R) st"
| "handle_event (language_changed lang) st = watch_language lang st"
| "handle_event (widget ev) st =
     (case editor st of None \<Rightarrow> Inr st | Some e \<Rightarrow> Inr (fire e ev st))"

fun run_events :: "component_event list \<Rightarrow> component \<Rightarrow> error + component" where
  "run_events [] st = Inr st"
| "run_events (ev # evs) st =
     (case handle_event ev st of Inl err \<Rightarrow> Inl err | Inr st' \<Rightarrow> run_events evs st')"

subsection \<open>The scenarios of the specification\<close>

text \<open>
  A component configured with language \<open>javascript\<close> and text \<open>print(1)\<close>, rendered into
  container 0, before and after \<open>onMounted\<close>.
\<close>

definition scenario_attrs :: attrs where
  "scenario_attrs =
     \<lparr>attr_language = Some ''javascript'', attr_modelValue = Some ''print(1)'',
      attr_readonly = None, attr_highlights = None\<rparr>"

definition scenario_rendered :: component where
  "scenario_rendered = (new_component scenario_attrs)\<lparr>containerRef := Some 0\<rparr>"

definition scenario_mounted :: component where
  "scenario_mounted =
     (case onMounted scenario_rendered of Inr st \<Rightarrow> st | Inl err \<Rightarrow> scenario_rendered)"

text \<open>The mounted component after a first highlights update with one range.\<close>

definition scenario_highlighted :: component where
  "scenario_highlighted =
     (case watch_highlights (Some [[1, 0, 1, 3]]) scenario_mounted of
        Inr st \<Rightarrow> st
      | Inl err \<Rightarrow> scenario_mounted)"

text \<open>
  The mounted component after the user typed \<open>;\<close> at the end of the text, the parent not
  having written the new text back into the \<open>modelValue\<close> prop; and the state in which a
  switch to \<open>python\<close> then ends.
\<close>

definition scenario_edited :: component where
  "scenario_edited = fire 0 (content_edit (\<lambda>t. t @ '';'')) scenario_mounted"

definition scenario_switched :: component where
  "scenario_switched = last (watch_language_steps ''python'' scenario_edited)"

section \<open>Worker routing: the dispatch table\<close>

text \<open>
  C3. For every label, \<open>getWorker\<close> answers with the JSON worker exactly on \<open>json\<close>, the style
  worker exactly on \<open>css\<close>, \<open>scss\<close>, \<open>less\<close>, the markup worker exactly on \<open>html\<close>,
  \<open>handlebars\<close>, \<open>razor\<close>, the type-aware worker exactly on \<open>typescript\<close>, \<open>javascript\<close>,
  the YAML worker exactly on \<open>yaml\<close>, and the generic editor worker exactly on every other
  label; the six kinds are pairwise different, so the six label classes partition the
  label space, and the answer does not depend on the ignored first argument.
\<close>

theorem getWorker_partition:
  "(getWorker u label = jsonWorker) = (label = ''json'')
   \<and> (getWorker u label = cssWorker) = (label \<in> {''css'', ''scss'', ''less''})
   \<and> (getWorker u label = htmlWorker) = (label \<in> {''html'', ''handlebars'', ''razor''})
   \<and> (getWorker u label = tsWorker) = (label \<in> {''typescript'', ''javascript''})
   \<and> (getWorker u label = yamlWorker) = (label = ''yaml'')
   \<and> (getWorker u label = editorWorker) =
       (label \<notin> {''json'', ''css'', ''scss'', ''less'', ''html'', ''handlebars'', ''razor'',
                  ''typescript'', ''javascript'', ''yaml''})
   \<and> distinct [jsonWorker, cssWorker, htmlWorker, tsWorker, yamlWorker, editorWorker]
   \<and> getWorker u label = getWorker u' label"
  by (simp add: getWorker_def)

section \<open>Basic facts about the embedding\<close>

lemmas lib_defs =
  monaco_editor_create_def monaco_editor_createModel_def getModel_def getValue_def
  setModel_def model_dispose_def editor_dispose_def onDidChangeModelContent_def
  onDidChangeCursorPosition_def createDecorationsCollection_def collection_set_def emits_def

text \<open>A successful mount establishes \<open>mounted\<close>, from any state.\<close>

lemma onMounted_mounted:
  "containerRef st = Some c \<Longrightarrow> \<exists>st'. onMounted st = Inr st' \<and> mounted st'"
  by (simp add: onMounted_def mounted_def lib_defs Let_def nth_append)

lemma mountedD:
  assumes "mounted st"
  obtains e m h where "editor st = Some e" "e < length (editors st)"
    "ed_disposed (editors st ! e) = 0"
    "ed_content_listeners (editors st ! e) = [emit_update_modelValue e]"
    "ed_cursor_listeners (editors st ! e) = [emit_changeCursor]"
    "ed_model (editors st ! e) = Some m" "m < length (models st)"
    "model_disposed (models st ! m) = 0"
    "highlights st = Some h" "h < length (collections st)"
  using assms by (auto simp: mounted_def split: option.splits)

lemma transformMatch_valid:
  "valid_match m \<Longrightarrow> transformMatch m =
     \<lparr>dec_range = \<lparr>startLineNumber = Num (m ! 0 + 1), startColumn = Num (m ! 1 + 1),
                   endLineNumber = Num (m ! 2 + 1), endColumn = Num (m ! 3 + 1)\<rparr>,
      dec_options = \<lparr>inlineClassName = ''monaco-highlight-span''\<rparr>\<rparr>"
  by (auto simp: valid_match_def transformMatch_def new_Range_def element_def add_one_def)

text \<open>
  A list whose start lies after its end is not a valid range; the decoration it gets is
  the normalised one, from the smaller position to the larger.
\<close>

lemma transformMatch_reversed:
  "length m = 4 \<Longrightarrow> m ! 2 < m ! 0 \<or> (m ! 0 = m ! 2 \<and> m ! 3 < m ! 1) \<Longrightarrow>
   transformMatch m =
     \<lparr>dec_range = \<lparr>startLineNumber = Num (m ! 2 + 1), startColumn = Num (m ! 3 + 1),
                   endLineNumber = Num (m ! 0 + 1), endColumn = Num (m ! 1 + 1)\<rparr>,
      dec_options = \<lparr>inlineClassName = ''monaco-highlight-span''\<rparr>\<rparr>"
  by (auto simp: transformMatch_def new_Range_def element_def add_one_def)

text \<open>A highlights update keeps the component mounted.\<close>

lemma watch_highlights_mounted:
  "mounted st \<Longrightarrow> \<exists>st'. watch_highlights (Some R) st = Inr st' \<and> mounted st'"
  by (auto simp: watch_highlights_def mounted_def collection_set_def split: option.splits)

lemma or_empty_eq: "or_empty v = (case v of None \<Rightarrow> '''' | Some t \<Rightarrow> t)"
  by (simp add: or_empty_def split: option.splits)

text \<open>The four states of a language switch on a mounted component, written out.\<close>

lemma watch_language_steps_mounted:
  assumes "editor st = Some e" "e < length (editors st)" "ed_model (editors st ! e) = Some old"
  shows "watch_language_steps lang st =
     [st,
      st\<lparr>models := models st @
            [\<lparr>model_value = or_empty (props_modelValue (props st)),
              model_language = lang, model_disposed = 0\<rparr>]\<rparr>,
      st\<lparr>models := models st @
            [\<lparr>model_value = or_empty (props_modelValue (props st)),
              model_language = lang, model_disposed = 0\<rparr>],
         editors := (editors st)[e := (editors st ! e)\<lparr>ed_model := Some (length (models st))\<rparr>]\<rparr>,
      st\<lparr>models :=
           (models st @
              [\<lparr>model_value = or_empty (props_modelValue (props st)),
                model_language = lang, model_disposed = 0\<rparr>])
           [old :=
              ((models st @
                  [\<lparr>model_value = or_empty (props_modelValue (props st)),
                    model_language = lang, model_disposed = 0\<rparr>]) ! old)
              \<lparr>model_disposed :=
                 Suc (model_disposed
                   ((models st @
                       [\<lparr>model_value = or_empty (props_modelValue (props st)),
                         model_language = lang, model_disposed = 0\<rparr>]) ! old))\<rparr>],
         editors := (editors st)[e := (editors st ! e)\<lparr>ed_model := Some (length (models st))\<rparr>]\<rparr>]"
  using assms by (simp add: watch_language_steps_def lib_defs Let_def)

text \<open>One event of the widget on a mounted component.\<close>

lemma fire_content_edit:
  assumes "mounted st" and "editor st = Some e"
  shows "emitted (fire e (content_edit f) st) =
           emitted st @ [update_modelValue (f (getValue e st))]"
    and "getValue e (fire e (content_edit f) st) = f (getValue e st)"
    and "mounted (fire e (content_edit f) st)"
    and "editor (fire e (content_edit f) st) = Some e"
  using assms
  by (auto simp: mounted_def lib_defs split: option.splits)

lemma fire_cursor_move:
  assumes "mounted st" and "editor st = Some e"
  shows "emitted (fire e (cursor_move c) st) = emitted st @ [changeCursor c]"
    and "getValue e (fire e (cursor_move c) st) = getValue e st"
    and "mounted (fire e (cursor_move c) st)"
    and "editor (fire e (cursor_move c) st) = Some e"
  using assms
  by (auto simp: mounted_def lib_defs split: option.splits)

text \<open>
  A run of events: by induction on the run, the state generalised, the component adds
  to its outbound events exactly what \<open>forwarded\<close> prescribes.
\<close>

lemma fold_fire:
  "mounted st \<Longrightarrow> editor st = Some e \<Longrightarrow>
     emitted (fold (fire e) evs st) = emitted st @ forwarded (getValue e st) evs
     \<and> mounted (fold (fire e) evs st) \<and> editor (fold (fire e) evs st) = Some e"
proof (induction evs arbitrary: st)
  case Nil
  then show ?case by simp
next
  case (Cons ev evs)
  show ?case
  proof (cases ev)
    case (content_edit f)
    with Cons.prems Cons.IH [of "fire e (content_edit f) st"] show ?thesis
      by (simp add: fire_content_edit del: fire.simps)
  next
    case (cursor_move c)
    with Cons.prems Cons.IH [of "fire e (cursor_move c) st"] show ?thesis
      by (simp add: fire_cursor_move del: fire.simps)
  qed
qed

lemma length_forwarded: "length (forwarded t evs) = length evs"
  by (induction t evs rule: forwarded.induct) simp_all

text \<open>
  \<open>mounted\<close> is kept by every event, so it holds from a successful mount on, whatever
  updates, language switches, edits and cursor moves follow; a mounted component has an
  attached model and an active decoration set.
\<close>

lemma mounted_active:
  "mounted st \<Longrightarrow> \<exists>m ds. active_model st = Some m \<and> active_decorations st = Some ds"
  by (auto simp: mounted_def active_model_def active_decorations_def getModel_def
      split: option.splits)

lemma watch_language_mounted:
  assumes "mounted st"
  shows "\<exists>st'. watch_language lang st = Inr st' \<and> mounted st'"
proof -
  from assms obtain e m h where m: "editor st = Some e" "e < length (editors st)"
    "ed_disposed (editors st ! e) = 0"
    "ed_content_listeners (editors st ! e) = [emit_update_modelValue e]"
    "ed_cursor_listeners (editors st ! e) = [emit_changeCursor]"
    "ed_model (editors st ! e) = Some m" "m < length (models st)"
    "model_disposed (models st ! m) = 0"
    "highlights st = Some h" "h < length (collections st)"
    by (rule mountedD)
  note steps = watch_language_steps_mounted [OF m(1) m(2) m(6), of lang]
  show ?thesis
    using m by (simp add: watch_language_def steps mounted_def nth_append)
qed

lemma handle_event_mounted:
  assumes "mounted st"
  shows "\<exists>st'. handle_event ev st = Inr st' \<and> mounted st'"
proof (cases ev)
  case (highlights_changed R)
  with assms show ?thesis by (simp add: watch_highlights_mounted)
next
  case (language_changed lang)
  with assms show ?thesis by (simp add: watch_language_mounted)
next
  case (widget w)
  from assms obtain e where e: "editor st = Some e"
    by (auto simp: mounted_def split: option.splits)
  show ?thesis
  proof (cases w)
    case (content_edit f)
    with widget e fire_content_edit(3) [OF assms e] show ?thesis by simp
  next
    case (cursor_move c)
    with widget e fire_cursor_move(3) [OF assms e] show ?thesis by simp
  qed
qed

lemma run_events_mounted:
  "mounted st \<Longrightarrow> \<exists>st'. run_events evs st = Inr st' \<and> mounted st'"
proof (induction evs arbitrary: st)
  case Nil
  then show ?case by simp
next
  case (Cons ev evs)
  from handle_event_mounted [OF Cons.prems, of ev]
  obtain s where s: "handle_event ev st = Inr s" "mounted s" by blast
  from Cons.IH [OF s(2)] s(1) show ?case by simp
qed

text \<open>Disposing an editor removes it, and only it, from the live editors.\<close>

lemma ed_disposed_editor_dispose:
  "x < length (editors st) \<Longrightarrow>
     (ed_disposed (editors (editor_dispose e st) ! x) = 0) =
     (ed_disposed (editors st ! x) = 0 \<and> x \<noteq> e)"
  by (cases "x = e") (simp_all add: editor_dispose_def)

lemma live_editors_dispose:
  "live_editors (editor_dispose e st) = filter (\<lambda>x. x \<noteq> e) (live_editors st)"
proof -
  have len: "length (editors (editor_dispose e st)) = length (editors st)"
    by (simp add: editor_dispose_def)
  show ?thesis
    unfolding live_editors_def len filter_filter
    by (rule filter_cong) (simp_all add: ed_disposed_editor_dispose conj_commute)
qed

lemma editor_editor_dispose: "editor (editor_dispose e st) = editor st"
  by (simp add: editor_dispose_def)

text \<open>The mounted scenario, evaluated.\<close>

lemma scenario_mounted_eq:
  "scenario_mounted =
     \<lparr>props = \<lparr>props_language = ''javascript'', props_modelValue = Some ''print(1)'',
                props_readonly = False, props_highlights = None\<rparr>,
      containerRef = Some 0, editor = Some 0, highlights = Some 0,
      editors = [\<lparr>ed_container = 0,
                  ed_options = \<lparr>opt_value = Some ''print(1)'', opt_language = ''javascript'',
                                 readOnly = False, automaticLayout = False,
                                 scrollBeyondLastLine = False, wordWrap = ''on'',
                                 lineNumbersMinChars = 3, minimap_enabled = False,
                                 inlineSuggest_enabled = True\<rparr>,
                  ed_model = Some 0,
                  ed_content_listeners = [emit_update_modelValue 0],
                  ed_cursor_listeners = [emit_changeCursor], ed_disposed = 0\<rparr>],
      models = [\<lparr>model_value = ''print(1)'', model_language = ''javascript'',
                 model_disposed = 0\<rparr>],
      collections = [[]], emitted = []\<rparr>"
  by (simp add: scenario_mounted_def scenario_rendered_def scenario_attrs_def new_component_def
      defineProps_def onMounted_def lib_defs Let_def)

lemma scenario_mounted_mounted: "mounted scenario_mounted"
  by (simp add: scenario_mounted_eq mounted_def)

lemma scenario_rendered_eq:
  "scenario_rendered =
     \<lparr>props = \<lparr>props_language = ''javascript'', props_modelValue = Some ''print(1)'',
                props_readonly = False, props_highlights = None\<rparr>,
      containerRef = Some 0, editor = None, highlights = None,
      editors = [], models = [], collections = [], emitted = []\<rparr>"
  by (simp add: scenario_rendered_def scenario_attrs_def new_component_def defineProps_def)

lemma onMounted_scenario: "onMounted scenario_rendered = Inr scenario_mounted"
  by (simp add: scenario_mounted_eq scenario_rendered_eq onMounted_def lib_defs Let_def)

lemma scenario_highlighted_decorations:
  "active_decorations scenario_highlighted =
     Some [\<lparr>dec_range = \<lparr>startLineNumber = Num 2, startColumn = Num 1,
                         endLineNumber = Num 2, endColumn = Num 4\<rparr>,
            dec_options = \<lparr>inlineClassName = ''monaco-highlight-span''\<rparr>\<rparr>]"
  by (simp add: scenario_highlighted_def scenario_mounted_eq watch_highlights_def
      collection_set_def active_decorations_def transformMatch_def new_Range_def element_def
      add_one_def)

lemma scenario_edited_eq:
  "scenario_edited =
     scenario_mounted
       \<lparr>models := [\<lparr>model_value = ''print(1);'', model_language = ''javascript'',
                    model_disposed = 0\<rparr>],
        emitted := [update_modelValue ''print(1);'']\<rparr>"
  by (simp add: scenario_edited_def scenario_mounted_eq lib_defs)

lemma scenario_edited_mounted: "mounted scenario_edited"
  by (simp add: scenario_edited_eq scenario_mounted_eq mounted_def)

section \<open>Decoration synchronisation\<close>

text \<open>
  C1. Whenever there is an active decoration set (the \<open>highlights\<close> variable refers to a
  collection, as it does from a successful mount on), for every list \<open>R\<close> of valid match
  ranges (four integers each, the start not after the end) the highlights watcher
  succeeds and leaves, in that very collection (no collection is added), exactly
  \<open>length R\<close> decorations; decoration \<open>i\<close> has the range from
  \<open>(R[i][0] + 1, R[i][1] + 1)\<close> to \<open>(R[i][2] + 1, R[i][3] + 1)\<close> and the one fixed class
  \<open>monaco-highlight-span\<close>. The new content is \<open>map transformMatch R\<close> whatever the
  collection held before: the previous set is replaced as a whole.
\<close>

theorem sync_replaces_decorations:
  assumes "active_decorations st = Some previous" and "list_all valid_match R"
  shows "\<exists>st' h. watch_highlights (Some R) st = Inr st'
           \<and> highlights st = Some h \<and> highlights st' = Some h
           \<and> length (collections st') = length (collections st)
           \<and> active_decorations st' = Some (collections st' ! h)
           \<and> collections st' ! h = map transformMatch R
           \<and> length (collections st' ! h) = length R
           \<and> (\<forall>i<length R. collections st' ! h ! i =
                 \<lparr>dec_range = \<lparr>startLineNumber = Num (R ! i ! 0 + 1),
                               startColumn = Num (R ! i ! 1 + 1),
                               endLineNumber = Num (R ! i ! 2 + 1),
                               endColumn = Num (R ! i ! 3 + 1)\<rparr>,
                  dec_options = \<lparr>inlineClassName = ''monaco-highlight-span''\<rparr>\<rparr>)"
proof -
  from assms(1) obtain h where h: "highlights st = Some h" "h < length (collections st)"
    by (auto simp: active_decorations_def split: option.splits if_splits)
  let ?st' = "collection_set h (map transformMatch R) st"
  have run: "watch_highlights (Some R) st = Inr ?st'"
    by (simp add: watch_highlights_def h)
  have content: "collections ?st' ! h = map transformMatch R"
    using h by (simp add: collection_set_def)
  have each: "\<forall>i<length R. map transformMatch R ! i =
                 \<lparr>dec_range = \<lparr>startLineNumber = Num (R ! i ! 0 + 1),
                               startColumn = Num (R ! i ! 1 + 1),
                               endLineNumber = Num (R ! i ! 2 + 1),
                               endColumn = Num (R ! i ! 3 + 1)\<rparr>,
                  dec_options = \<lparr>inlineClassName = ''monaco-highlight-span''\<rparr>\<rparr>"
    using assms(2) by (simp add: list_all_length transformMatch_valid)
  show ?thesis
    using h run content each
    by (simp add: active_decorations_def collection_set_def)
qed

text \<open>
  A component whose decoration set holds one decoration, on line 2, receives the two
  ranges \<open>[0, 0, 0, 5]\<close> (the scenario of the specification: line 1 column 1 to line 1
  column 6) and \<open>[2, 1, 3, 0]\<close>: the set then holds exactly these two decorations, and the
  one of line 2 is gone.
\<close>

theorem sync_replaces_decorations_witness:
  "active_decorations scenario_highlighted =
     Some [\<lparr>dec_range = \<lparr>startLineNumber = Num 2, startColumn = Num 1,
                         endLineNumber = Num 2, endColumn = Num 4\<rparr>,
            dec_options = \<lparr>inlineClassName = ''monaco-highlight-span''\<rparr>\<rparr>]
   \<and> list_all valid_match [[0, 0, 0, 5], [2, 1, 3, 0]]
   \<and> (\<exists>st'. watch_highlights (Some [[0, 0, 0, 5], [2, 1, 3, 0]]) scenario_highlighted = Inr st'
         \<and> active_decorations st' =
             Some [\<lparr>dec_range = \<lparr>startLineNumber = Num 1, startColumn = Num 1,
                                 endLineNumber = Num 1, endColumn = Num 6\<rparr>,
                    dec_options = \<lparr>inlineClassName = ''monaco-highlight-span''\<rparr>\<rparr>,
                   \<lparr>dec_range = \<lparr>startLineNumber = Num 3, startColumn = Num 2,
                                 endLineNumber = Num 4, endColumn = Num 1\<rparr>,
                    dec_options = \<lparr>inlineClassName = ''monaco-highlight-span''\<rparr>\<rparr>])"
proof -
  note m = scenario_highlighted_decorations
  have v: "list_all valid_match [[0, 0, 0, 5], [2, 1, 3, 0]]"
    by (simp add: valid_match_def)
  have t: "map transformMatch [[0, 0, 0, 5], [2, 1, 3, 0]] =
             [\<lparr>dec_range = \<lparr>startLineNumber = Num 1, startColumn = Num 1,
                             endLineNumber = Num 1, endColumn = Num 6\<rparr>,
                dec_options = \<lparr>inlineClassName = ''monaco-highlight-span''\<rparr>\<rparr>,
               \<lparr>dec_range = \<lparr>startLineNumber = Num 3, startColumn = Num 2,
                             endLineNumber = Num 4, endColumn = Num 1\<rparr>,
                dec_options = \<lparr>inlineClassName = ''monaco-highlight-span''\<rparr>\<rparr>]"
    by (simp add: transformMatch_def new_Range_def element_def add_one_def)
  from sync_replaces_decorations [OF m v]
  obtain st' h where "watch_highlights (Some [[0, 0, 0, 5], [2, 1, 3, 0]]) scenario_highlighted = Inr st'"
    "active_decorations st' = Some (collections st' ! h)"
    "collections st' ! h = map transformMatch [[0, 0, 0, 5], [2, 1, 3, 0]]"
    by blast
  with m v t show ?thesis
    by simp
qed

text \<open>
  C10. While the \<open>highlights\<close> variable is null (no mount has succeeded yet), the watcher
  returns normally with the state it was given, for every list of ranges: nothing is
  created, nothing is modified, nothing is thrown.
\<close>

theorem sync_before_mount_noop:
  "highlights st = None \<Longrightarrow> watch_highlights (Some R) st = Inr st"
  by (simp add: watch_highlights_def)

theorem sync_before_mount_noop_witness:
  "highlights scenario_rendered = None
   \<and> watch_highlights (Some [[0, 0, 0, 5]]) scenario_rendered = Inr scenario_rendered"
proof -
  have h: "highlights scenario_rendered = None"
    by (simp add: scenario_rendered_eq)
  from sync_before_mount_noop [OF h, of "[[0, 0, 0, 5]]"] h show ?thesis
    by simp
qed

text \<open>
  C9. In every state the watcher throws a TypeError when the new value of the highlights
  prop is \<open>undefined\<close>, whether or not a collection exists; \<open>onMounted\<close>, run with a
  container and an absent highlights prop, succeeds and creates the empty decoration set.
\<close>

theorem sync_throws_on_absent_list:
  "watch_highlights None st = Inl TypeError
   \<and> (\<forall>c. containerRef st = Some c \<and> props_highlights (props st) = None \<longrightarrow>
         (\<exists>st'. onMounted st = Inr st' \<and> active_decorations st' = Some []))"
  by (simp add: watch_highlights_def onMounted_def lib_defs Let_def active_decorations_def)

theorem sync_throws_on_absent_list_witness:
  "watch_highlights None scenario_mounted = Inl TypeError
   \<and> containerRef scenario_rendered = Some 0
   \<and> props_highlights (props scenario_rendered) = None
   \<and> onMounted scenario_rendered = Inr scenario_mounted
   \<and> active_decorations scenario_mounted = Some []"
proof -
  have c: "containerRef scenario_rendered = Some 0"
    and p: "props_highlights (props scenario_rendered) = None"
    by (simp_all add: scenario_rendered_eq)
  from sync_throws_on_absent_list [of scenario_mounted]
  have t: "watch_highlights None scenario_mounted = Inl TypeError" by simp
  from sync_throws_on_absent_list [of scenario_rendered] c p
  obtain st' where "onMounted scenario_rendered = Inr st'" "active_decorations st' = Some []"
    by blast
  with c p t show ?thesis
    by (simp add: onMounted_scenario)
qed

section \<open>Language switch\<close>

text \<open>
  C2, as amended. On a mounted component whose editor has the model \<open>old\<close> attached, the
  language watcher, called with any new language, succeeds; afterwards the editor's
  attached model is a new one, whose text is the current value of the \<open>modelValue\<close> prop
  (the empty text when the prop is absent) and whose language is the new language, and
  which was never disposed. \<open>dispose\<close> was called on \<open>old\<close> exactly once (its count goes
  from 0 to 1), and every other model is as it was. The new model's text is the text the
  editor had whenever the prop holds that text, as it does once the parent has written
  every edit back. The component is still mounted.
\<close>

theorem language_change_rebuilds_model:
  assumes "mounted st" and "active_model st = Some old"
  shows "\<exists>st' new. watch_language lang st = Inr st'
           \<and> active_model st' = Some new \<and> new \<noteq> old
           \<and> models st' ! new =
               \<lparr>model_value = (case props_modelValue (props st) of None \<Rightarrow> '''' | Some t \<Rightarrow> t),
                model_language = lang, model_disposed = 0\<rparr>
           \<and> length (models st') = Suc (length (models st))
           \<and> model_disposed (models st ! old) = 0
           \<and> model_disposed (models st' ! old) = 1
           \<and> (\<forall>m<length (models st). m \<noteq> old \<longrightarrow> models st' ! m = models st ! m)
           \<and> (\<forall>e. editor st = Some e \<and> props_modelValue (props st) = Some (getValue e st)
                  \<longrightarrow> model_value (models st' ! new) = getValue e st)
           \<and> mounted st'"
proof -
  from assms(1) obtain e m h where m: "editor st = Some e" "e < length (editors st)"
    "ed_disposed (editors st ! e) = 0"
    "ed_content_listeners (editors st ! e) = [emit_update_modelValue e]"
    "ed_cursor_listeners (editors st ! e) = [emit_changeCursor]"
    "ed_model (editors st ! e) = Some m" "m < length (models st)"
    "model_disposed (models st ! m) = 0"
    "highlights st = Some h" "h < length (collections st)"
    by (rule mountedD)
  from assms(2) m have old: "m = old"
    by (simp add: active_model_def getModel_def)
  note steps = watch_language_steps_mounted [OF m(1) m(2) m(6), of lang]
  show ?thesis
    using m old
    by (simp add: watch_language_def steps active_model_def getModel_def getValue_def
        mounted_def nth_append nth_list_update or_empty_eq)
qed

text \<open>
  The scenario of the specification: \<open>modelValue = "print(1)"\<close>, language \<open>javascript\<close>,
  then a switch to \<open>python\<close>.
\<close>

text \<open>
  C2 as the specification words it, the new model's text being the text the editor
  currently shows, does not hold: after the user typed \<open>;\<close> and before the parent wrote
  the text back, the editor shows \<open>print(1);\<close>, the prop still holds \<open>print(1)\<close>, and the
  model attached by a switch to \<open>python\<close> has the prop's text; the edit is dropped.
\<close>

theorem language_change_text_counterexample:
  "mounted scenario_edited
   \<and> active_model scenario_edited = Some 0
   \<and> getValue 0 scenario_edited = ''print(1);''
   \<and> watch_language ''python'' scenario_edited = Inr scenario_switched
   \<and> active_model scenario_switched = Some 1
   \<and> models scenario_switched ! 1 =
        \<lparr>model_value = ''print(1)'', model_language = ''python'', model_disposed = 0\<rparr>
   \<and> getValue 0 scenario_switched = ''print(1)''
   \<and> getValue 0 scenario_switched \<noteq> getValue 0 scenario_edited"
  by (simp add: mounted_def watch_language_def scenario_switched_def
      scenario_edited_eq scenario_mounted_eq watch_language_steps_def lib_defs Let_def
      active_model_def or_empty_def)

theorem language_change_rebuilds_model_witness:
  "mounted scenario_mounted \<and> active_model scenario_mounted = Some 0
   \<and> (\<exists>st'. watch_language ''python'' scenario_mounted = Inr st'
         \<and> active_model st' = Some 1
         \<and> models st' =
             [\<lparr>model_value = ''print(1)'', model_language = ''javascript'', model_disposed = 1\<rparr>,
              \<lparr>model_value = ''print(1)'', model_language = ''python'', model_disposed = 0\<rparr>])"
proof -
  have m: "mounted scenario_mounted" by (rule scenario_mounted_mounted)
  have a: "active_model scenario_mounted = Some 0"
    by (simp add: scenario_mounted_eq active_model_def getModel_def)
  have r: "\<exists>st'. watch_language ''python'' scenario_mounted = Inr st'
         \<and> active_model st' = Some 1
         \<and> models st' =
             [\<lparr>model_value = ''print(1)'', model_language = ''javascript'', model_disposed = 1\<rparr>,
              \<lparr>model_value = ''print(1)'', model_language = ''python'', model_disposed = 0\<rparr>]"
    by (simp add: scenario_mounted_eq watch_language_def watch_language_steps_def lib_defs
        Let_def active_model_def or_empty_def)
  from language_change_rebuilds_model [OF m a, of "''python''"] m a r show ?thesis
    by blast
qed

text \<open>
  C6. On a mounted component the language watcher passes through four states: the one
  it starts in, and the ones after \<open>createModel\<close>, after \<open>setModel\<close> and after the
  disposal. In each of them the editor has one model attached, and that model exists and
  was never disposed. After \<open>createModel\<close> the attached model is still the old one; after
  \<open>setModel\<close> it is the new one while the old one is not yet disposed; only in the last
  state is the old one disposed, the new one being attached.
\<close>

theorem language_switch_attach_before_dispose:
  assumes "mounted st" and "active_model st = Some old"
  shows "\<exists>s1 s2 s3 new. watch_language_steps lang st = [st, s1, s2, s3]
           \<and> watch_language lang st = Inr s3
           \<and> (\<forall>s \<in> set [st, s1, s2, s3].
                 \<exists>m. active_model s = Some m \<and> m < length (models s)
                      \<and> model_disposed (models s ! m) = 0)
           \<and> active_model s1 = Some old
           \<and> active_model s2 = Some new \<and> new \<noteq> old
           \<and> model_disposed (models s2 ! old) = 0
           \<and> active_model s3 = Some new
           \<and> model_disposed (models s3 ! old) = 1"
proof -
  from assms(1) obtain e m h where m: "editor st = Some e" "e < length (editors st)"
    "ed_disposed (editors st ! e) = 0"
    "ed_content_listeners (editors st ! e) = [emit_update_modelValue e]"
    "ed_cursor_listeners (editors st ! e) = [emit_changeCursor]"
    "ed_model (editors st ! e) = Some m" "m < length (models st)"
    "model_disposed (models st ! m) = 0"
    "highlights st = Some h" "h < length (collections st)"
    by (rule mountedD)
  from assms(2) m have old: "m = old"
    by (simp add: active_model_def getModel_def)
  note steps = watch_language_steps_mounted [OF m(1) m(2) m(6), of lang]
  show ?thesis
    using m old
    by (simp add: watch_language_def steps active_model_def getModel_def
        nth_append nth_list_update)
qed

theorem language_switch_attach_before_dispose_witness:
  "mounted scenario_mounted \<and> active_model scenario_mounted = Some 0
   \<and> map active_model (watch_language_steps ''python'' scenario_mounted)
       = [Some 0, Some 0, Some 1, Some 1]
   \<and> map (\<lambda>s. map model_disposed (models s)) (watch_language_steps ''python'' scenario_mounted)
       = [[0], [0, 0], [0, 0], [1, 0]]"
proof -
  have m: "mounted scenario_mounted" by (rule scenario_mounted_mounted)
  have a: "active_model scenario_mounted = Some 0"
    by (simp add: scenario_mounted_eq active_model_def getModel_def)
  have r: "map active_model (watch_language_steps ''python'' scenario_mounted)
             = [Some 0, Some 0, Some 1, Some 1]
           \<and> map (\<lambda>s. map model_disposed (models s))
                (watch_language_steps ''python'' scenario_mounted)
             = [[0], [0, 0], [0, 0], [1, 0]]"
    by (simp add: scenario_mounted_eq watch_language_steps_def lib_defs Let_def
        active_model_def or_empty_def)
  from language_switch_attach_before_dispose [OF m a, of "''python''"] m a r show ?thesis
    by blast
qed

section \<open>Change events\<close>

text \<open>
  C7. On a mounted component, an edit \<open>f\<close> of the editor's text makes the component emit
  exactly one event, \<open>update:modelValue\<close>, carrying the whole text after the edit (which is
  what \<open>getValue\<close> then returns); a cursor move makes it emit exactly one \<open>changeCursor\<close>
  event carrying the event it was given. For any run of such events the outbound events
  grow by exactly the list the specification prescribes (\<open>forwarded\<close>), one per event and
  in order: nothing is merged, delayed or dropped.
\<close>

theorem events_forwarded_unbuffered:
  assumes "mounted st" and "editor st = Some e"
  shows "emitted (fire e (content_edit f) st) =
           emitted st @ [update_modelValue (f (getValue e st))]
       \<and> getValue e (fire e (content_edit f) st) = f (getValue e st)
       \<and> emitted (fire e (cursor_move c) st) = emitted st @ [changeCursor c]
       \<and> emitted (fold (fire e) evs st) = emitted st @ forwarded (getValue e st) evs
       \<and> length (emitted (fold (fire e) evs st)) = length (emitted st) + length evs"
  using assms fire_content_edit(1,2) [OF assms] fire_cursor_move(1) [OF assms]
    fold_fire [OF assms, of evs]
  by (simp add: length_forwarded del: fire.simps)

text \<open>A keystroke appending \<open>;\<close> to \<open>print(1)\<close>, followed by the cursor move it causes.\<close>

theorem events_forwarded_unbuffered_witness:
  "mounted scenario_mounted \<and> editor scenario_mounted = Some 0
   \<and> emitted (fold (fire 0)
        [content_edit (\<lambda>t. t @ '';''), cursor_move \<lparr>ev_lineNumber = 1, ev_column = 10\<rparr>]
        scenario_mounted)
      = [update_modelValue ''print(1);'', changeCursor \<lparr>ev_lineNumber = 1, ev_column = 10\<rparr>]"
proof -
  have m: "mounted scenario_mounted" by (rule scenario_mounted_mounted)
  have e: "editor scenario_mounted = Some 0" by (simp add: scenario_mounted_eq)
  have g: "getValue 0 scenario_mounted = ''print(1)''"
    and o: "emitted scenario_mounted = []"
    by (simp_all add: scenario_mounted_eq getValue_def getModel_def)
  from events_forwarded_unbuffered [OF m e,
      of _ _ "[content_edit (\<lambda>t. t @ '';''), cursor_move \<lparr>ev_lineNumber = 1, ev_column = 10\<rparr>]"]
  have "emitted (fold (fire 0)
          [content_edit (\<lambda>t. t @ '';''), cursor_move \<lparr>ev_lineNumber = 1, ev_column = 10\<rparr>]
          scenario_mounted)
        = emitted scenario_mounted @ forwarded (getValue 0 scenario_mounted)
          [content_edit (\<lambda>t. t @ '';''), cursor_move \<lparr>ev_lineNumber = 1, ev_column = 10\<rparr>]"
    by blast
  with m e show ?thesis
    by (simp add: g o)
qed

section \<open>Mount and unmount\<close>

text \<open>
  C4. When \<open>containerRef.value\<close> is null, \<open>onMounted\<close> returns normally with the state it
  was given: no editor, no model, no listener, no collection is created and nothing is
  thrown. Nothing remembers the attempt: once the container is there, \<open>onMounted\<close>
  succeeds, creates one editor and leaves the component mounted.
\<close>

theorem mount_without_container:
  assumes "containerRef st = None"
  shows "onMounted st = Inr st
       \<and> (\<exists>st'. onMounted (st\<lparr>containerRef := Some c\<rparr>) = Inr st' \<and> mounted st'
                 \<and> length (editors st') = Suc (length (editors st)))"
  using assms
  by (simp add: onMounted_def mounted_def lib_defs Let_def nth_append)

theorem mount_without_container_witness:
  "containerRef (new_component scenario_attrs) = None
   \<and> onMounted (new_component scenario_attrs) = Inr (new_component scenario_attrs)
   \<and> onMounted ((new_component scenario_attrs)\<lparr>containerRef := Some 0\<rparr>) = Inr scenario_mounted"
proof -
  have c: "containerRef (new_component scenario_attrs) = None"
    by (simp add: new_component_def)
  from mount_without_container [OF c, of 0]
  have "onMounted (new_component scenario_attrs) = Inr (new_component scenario_attrs)"
    by blast
  with c show ?thesis
    using onMounted_scenario by (simp add: scenario_rendered_def)
qed

text \<open>
  C5. In every state \<open>onBeforeUnmount\<close> returns normally, and so does a second call
  right after it; the second call leaves the same editors live as the first and the
  component's reference as it was, and the editor the component referred to is not live
  after the first call. When no editor was ever stored (mount never completed) the call
  changes nothing. For a fresh component, with or without a container, \<open>onMounted\<close>
  followed by \<open>onBeforeUnmount\<close> succeeds and leaves no live editor at all.
\<close>

theorem unmount_safe:
  "(\<exists>s1 s2. onBeforeUnmount st = Inr s1 \<and> onBeforeUnmount s1 = Inr s2
        \<and> editor s1 = editor st \<and> editor s2 = editor st
        \<and> live_editors s2 = live_editors s1
        \<and> (\<forall>e. editor st = Some e \<longrightarrow> e \<notin> set (live_editors s1)))
   \<and> (editor st = None \<longrightarrow> onBeforeUnmount st = Inr st)
   \<and> (\<exists>s1 s2. onMounted ((new_component a)\<lparr>containerRef := cont\<rparr>) = Inr s1
        \<and> onBeforeUnmount s1 = Inr s2 \<and> live_editors s2 = [])"
proof (intro conjI)
  show "\<exists>s1 s2. onBeforeUnmount st = Inr s1 \<and> onBeforeUnmount s1 = Inr s2
        \<and> editor s1 = editor st \<and> editor s2 = editor st
        \<and> live_editors s2 = live_editors s1
        \<and> (\<forall>e. editor st = Some e \<longrightarrow> e \<notin> set (live_editors s1))"
  proof (cases "editor st")
    case None
    then show ?thesis by (simp add: onBeforeUnmount_def)
  next
    case (Some e)
    then show ?thesis
      by (simp add: onBeforeUnmount_def live_editors_dispose editor_editor_dispose)
  qed
  show "editor st = None \<longrightarrow> onBeforeUnmount st = Inr st"
    by (simp add: onBeforeUnmount_def)
  show "\<exists>s1 s2. onMounted ((new_component a)\<lparr>containerRef := cont\<rparr>) = Inr s1
        \<and> onBeforeUnmount s1 = Inr s2 \<and> live_editors s2 = []"
    by (cases cont)
      (simp_all add: onMounted_def onBeforeUnmount_def new_component_def lib_defs Let_def
        live_editors_def)
qed

theorem unmount_safe_witness:
  "live_editors scenario_mounted = [0]
   \<and> (\<exists>s1 s2. onBeforeUnmount scenario_mounted = Inr s1 \<and> onBeforeUnmount s1 = Inr s2
         \<and> live_editors s1 = [] \<and> live_editors s2 = [])
   \<and> editor (new_component scenario_attrs) = None
   \<and> onBeforeUnmount (new_component scenario_attrs) = Inr (new_component scenario_attrs)"
proof -
  have l: "live_editors scenario_mounted = [0]"
    and e: "editor scenario_mounted = Some 0"
    by (simp_all add: scenario_mounted_eq live_editors_def)
  have n: "editor (new_component scenario_attrs) = None"
    by (simp add: new_component_def)
  from unmount_safe [where st = scenario_mounted and a = scenario_attrs and cont = None] e
  obtain s1 s2 where s: "onBeforeUnmount scenario_mounted = Inr s1" "onBeforeUnmount s1 = Inr s2"
    "live_editors s2 = live_editors s1" "0 \<notin> set (live_editors s1)"
    by blast
  from s(1) e have "live_editors s1 = filter (\<lambda>x. x \<noteq> 0) (live_editors scenario_mounted)"
    by (auto simp: onBeforeUnmount_def live_editors_dispose)
  with l have "live_editors s1 = []" by simp
  with s have r: "\<exists>s1 s2. onBeforeUnmount scenario_mounted = Inr s1 \<and> onBeforeUnmount s1 = Inr s2
         \<and> live_editors s1 = [] \<and> live_editors s2 = []"
    by simp
  from unmount_safe [where st = "new_component scenario_attrs" and a = scenario_attrs and cont = None] n
  have "onBeforeUnmount (new_component scenario_attrs) = Inr (new_component scenario_attrs)"
    by blast
  with l r n show ?thesis by simp
qed

section \<open>Defaults of the configuration\<close>

text \<open>
  C8. Whatever the other options are: an omitted \<open>language\<close> becomes \<open>javascript\<close>, an
  omitted \<open>readonly\<close> becomes false, and a component mounted with \<open>highlights\<close> omitted
  gets the empty decoration set, its state after \<open>onMounted\<close> being the one of a
  component given the empty list, but for the prop itself, which stays absent.
\<close>

theorem omitted_options_defaults:
  "props_language (defineProps (a\<lparr>attr_language := None\<rparr>)) = ''javascript''
   \<and> props_readonly (defineProps (a\<lparr>attr_readonly := None\<rparr>)) = False
   \<and> (\<exists>s s'. onMounted ((new_component (a\<lparr>attr_highlights := None\<rparr>))\<lparr>containerRef := Some c\<rparr>)
                = Inr s
         \<and> active_decorations s = Some []
         \<and> onMounted ((new_component (a\<lparr>attr_highlights := Some []\<rparr>))\<lparr>containerRef := Some c\<rparr>)
                = Inr s'
         \<and> s' = s\<lparr>props := (props s)\<lparr>props_highlights := Some []\<rparr>\<rparr>
         \<and> props_highlights (props s) = None)"
  by (simp add: defineProps_def onMounted_def new_component_def lib_defs Let_def
      active_decorations_def)

end
